theory Spec2Isabelle
  imports Main "HOL-Library.Multiset"
begin

section \<open>Type definitions of the client (types module)\<close>

text \<open>
  The string-literal unions of the types module become datatypes with one constructor
  per literal; the functions \<open>ExecutionStatus_string\<close> and \<open>TestStepType_string\<close>
  give back the literal each constructor stands for. The type \<open>number\<close> is modelled
  as \<open>int\<close> (step numbers, counters and millisecond durations), \<open>string\<close> as
  \<open>string\<close>, an optional property \<open>p?: T\<close> as \<open>T option\<close>, and
  \<open>unknown\<close> as a JSON value.
\<close>

datatype ExecutionStatus = Pending | Running | Passed | Failed | Skipped | Error

definition ExecutionStatus_values :: "ExecutionStatus list" where
  "ExecutionStatus_values = [Pending, Running, Passed, Failed, Skipped, Error]"

fun ExecutionStatus_string :: "ExecutionStatus \<Rightarrow> string" where
  "ExecutionStatus_string Pending = ''pending''"
| "ExecutionStatus_string Running = ''running''"
| "ExecutionStatus_string Passed = ''passed''"
| "ExecutionStatus_string Failed = ''failed''"
| "ExecutionStatus_string Skipped = ''skipped''"
| "ExecutionStatus_string Error = ''error''"

datatype TestStepType =
    Navigate | Click | Fill | Type | Select | Check | Uncheck | Hover | Wait
  | AssertText | AssertVisible | AssertHidden | AssertValue
  | PressKey | Screenshot

definition TestStepType_values :: "TestStepType list" where
  "TestStepType_values =
     [Navigate, Click, Fill, Type, Select, Check, Uncheck, Hover, Wait,
      AssertText, AssertVisible, AssertHidden, AssertValue, PressKey, Screenshot]"

fun TestStepType_string :: "TestStepType \<Rightarrow> string" where
  "TestStepType_string Navigate = ''navigate''"
| "TestStepType_string Click = ''click''"
| "TestStepType_string Fill = ''fill''"
| "TestStepType_string Type = ''type''"
| "TestStepType_string Select = ''select''"
| "TestStepType_string Check = ''check''"
| "TestStepType_string Uncheck = ''uncheck''"
| "TestStepType_string Hover = ''hover''"
| "TestStepType_string Wait = ''wait''"
| "TestStepType_string AssertText = ''assert_text''"
| "TestStepType_string AssertVisible = ''assert_visible''"
| "TestStepType_string AssertHidden = ''assert_hidden''"
| "TestStepType_string AssertValue = ''assert_value''"
| "TestStepType_string PressKey = ''press_key''"
| "TestStepType_string Screenshot = ''screenshot''"

datatype unknown =
    JNull | JBool bool | JNumber int | JString string
  | JArray "unknown list" | JObject "(string \<times> unknown) list"

text \<open>
  Three property names of the source are reserved words or library constants here and
  carry a suffix: \<open>id\<close> is \<open>id_field\<close>, \<open>text\<close> is \<open>text_field\<close>,
  \<open>value\<close> is \<open>value_field\<close>.
\<close>

record ElementLocator =
  name :: string
  description :: "string option"
  data_testid :: "string option"
  id_field :: "string option"
  aria_label :: "string option"
  role :: "string option"
  css :: "string option"
  text_field :: "string option"
  xpath :: "string option"
  placeholder :: "string option"

record TestStep =
  step_number :: int
  action :: TestStepType
  description :: string
  element :: "ElementLocator option"
  value_field :: "string option"
  timeout :: "int option"
  metadata :: "(string \<times> unknown) list option"

record TestCase =
  id_field :: string
  name :: string
  description :: string
  tags :: "string list"
  steps :: "TestStep list"
  setup_steps :: "TestStep list"
  teardown_steps :: "TestStep list"
  created_at :: string
  updated_at :: string
  last_run_status :: "ExecutionStatus option"
  last_run_at :: "string option"

record TestCaseCreate =
  name :: string
  description :: string
  tags :: "string list"
  steps :: "TestStep list"
  setup_steps :: "TestStep list option"
  teardown_steps :: "TestStep list option"

record StepResult =
  step_number :: int
  description :: string
  status :: ExecutionStatus
  action_type :: string
  duration_ms :: int
  error_message :: "string option"
  element_name :: "string option"
  has_screenshot :: bool

record TestExecution =
  execution_id :: string
  test_name :: string
  status :: ExecutionStatus
  started_at :: string
  completed_at :: "string option"
  duration_ms :: int
  passed_steps :: int
  failed_steps :: int
  total_steps :: int
  step_results :: "StepResult list"
  error_message :: "string option"
  page_url :: "string option"

subsection \<open>The interface declarations as data\<close>

text \<open>
  A statement about which properties an interface declares, with which type and
  whether with a question mark, is a statement about the declaration itself. The
  declarations are therefore also written down as lists of property descriptors, in
  source order.
\<close>

datatype ts_type =
    TString | TNumber | TBoolean
  | TArray ts_type
  | TNamed string

record field_decl =
  field_name :: string
  field_type :: ts_type
  optional :: bool

definition fld :: "string \<Rightarrow> ts_type \<Rightarrow> bool \<Rightarrow> field_decl" where
  "fld n t opt = \<lparr>field_name = n, field_type = t, optional = opt\<rparr>"

definition TestCase_fields :: "field_decl list" where
  "TestCase_fields =
     [fld ''id'' TString False,
      fld ''name'' TString False,
      fld ''description'' TString False,
      fld ''tags'' (TArray TString) False,
      fld ''steps'' (TArray (TNamed ''TestStep'')) False,
      fld ''setup_steps'' (TArray (TNamed ''TestStep'')) False,
      fld ''teardown_steps'' (TArray (TNamed ''TestStep'')) False,
      fld ''created_at'' TString False,
      fld ''updated_at'' TString False,
      fld ''last_run_status'' (TNamed ''ExecutionStatus'') True,
      fld ''last_run_at'' TString True]"

definition TestCaseCreate_fields :: "field_decl list" where
  "TestCaseCreate_fields =
     [fld ''name'' TString False,
      fld ''description'' TString False,
      fld ''tags'' (TArray TString) False,
      fld ''steps'' (TArray (TNamed ''TestStep'')) False,
      fld ''setup_steps'' (TArray (TNamed ''TestStep'')) True,
      fld ''teardown_steps'' (TArray (TNamed ''TestStep'')) True]"

definition StepResult_fields :: "field_decl list" where
  "StepResult_fields =
     [fld ''step_number'' TNumber False,
      fld ''description'' TString False,
      fld ''status'' (TNamed ''ExecutionStatus'') False,
      fld ''action_type'' TString False,
      fld ''duration_ms'' TNumber False,
      fld ''error_message'' TString True,
      fld ''element_name'' TString True,
      fld ''has_screenshot'' TBoolean False]"

definition TestExecution_fields :: "field_decl list" where
  "TestExecution_fields =
     [fld ''execution_id'' TString False,
      fld ''test_name'' TString False,
      fld ''status'' (TNamed ''ExecutionStatus'') False,
      fld ''started_at'' TString False,
      fld ''completed_at'' TString True,
      fld ''duration_ms'' TNumber False,
      fld ''passed_steps'' TNumber False,
      fld ''failed_steps'' TNumber False,
      fld ''total_steps'' TNumber False,
      fld ''step_results'' (TArray (TNamed ''StepResult'')) False,
      fld ''error_message'' TString True,
      fld ''page_url'' TString True]"

definition TestStep_fields :: "field_decl list" where
  "TestStep_fields =
     [fld ''step_number'' TNumber False,
      fld ''action'' (TNamed ''TestStepType'') False,
      fld ''description'' TString False,
      fld ''element'' (TNamed ''ElementLocator'') True,
      fld ''value'' TString True,
      fld ''timeout'' TNumber True,
      fld ''metadata'' (TNamed ''Record<string, unknown>'') True]"

definition type_of_field :: "field_decl list \<Rightarrow> string \<Rightarrow> ts_type option" where
  "type_of_field fs n = map_option field_type (find (\<lambda>f. field_name f = n) fs)"

text \<open>
  The identity and audit properties of a test case, and a declaration with them
  removed.
\<close>

definition identity_audit_fields :: "string list" where
  "identity_audit_fields =
     [''id'', ''created_at'', ''updated_at'', ''last_run_status'', ''last_run_at'']"

definition strip_identity_audit :: "field_decl list \<Rightarrow> field_decl list" where
  "strip_identity_audit fs =
     filter (\<lambda>f. \<not> List.member identity_audit_fields (field_name f)) fs"

section \<open>The badge components (Badge module)\<close>

datatype BadgeVariant =
  Variant_default | Variant_success | Variant_warning | Variant_error | Variant_info

record BadgeProps =
  variant :: "BadgeVariant option"
  className :: "string option"
  children :: string

fun variantStyles :: "BadgeVariant \<Rightarrow> string" where
  "variantStyles Variant_default = ''bg-slate-100 text-slate-800 border-slate-200''"
| "variantStyles Variant_success = ''bg-green-100 text-green-800 border-green-200''"
| "variantStyles Variant_warning = ''bg-yellow-100 text-yellow-800 border-yellow-200''"
| "variantStyles Variant_error = ''bg-red-100 text-red-800 border-red-200''"
| "variantStyles Variant_info = ''bg-blue-100 text-blue-800 border-blue-200''"

datatype html = Span string string

text \<open>
  \<open>Badge\<close> renders a \<open>span\<close> whose class is computed by the helper \<open>cn\<close> of
  the utilities module, which is not among the sources: it is a parameter. An absent
  \<open>variant\<close> defaults to \<open>default\<close>.
\<close>

definition Badge :: "(string option list \<Rightarrow> string) \<Rightarrow> BadgeProps \<Rightarrow> html" where
  "Badge cn props =
     (let v = (case variant props of None \<Rightarrow> Variant_default | Some v' \<Rightarrow> v')
      in Span
           (cn [Some ''inline-flex items-center px-2 py-0.5 text-xs font-medium rounded-full border'',
                Some (variantStyles v),
                className props])
           (children props))"

text \<open>
  The string methods used for the label. \<open>charAt\<close> is the empty string out of range,
  \<open>slice\<close> with a non-negative start drops that many characters, and
  \<open>toUpperCase\<close> is modelled on the ASCII letters, which is all a status literal
  contains; any other character is left as it is.
\<close>

definition charAt :: "string \<Rightarrow> nat \<Rightarrow> string" where
  "charAt s i = (if i < length s then [s ! i] else [])"

definition slice :: "string \<Rightarrow> nat \<Rightarrow> string" where
  "slice s i = drop i s"

definition toUpperCase_char :: "char \<Rightarrow> char" where
  "toUpperCase_char c =
     (case map_of (zip ''abcdefghijklmnopqrstuvwxyz'' ''ABCDEFGHIJKLMNOPQRSTUVWXYZ'') c of
        None \<Rightarrow> c
      | Some u \<Rightarrow> u)"

definition toUpperCase :: "string \<Rightarrow> string" where
  "toUpperCase s = map toUpperCase_char s"

fun statusVariants :: "ExecutionStatus \<Rightarrow> BadgeVariant" where
  "statusVariants Passed = Variant_success"
| "statusVariants Failed = Variant_error"
| "statusVariants Error = Variant_error"
| "statusVariants Running = Variant_info"
| "statusVariants Pending = Variant_warning"
| "statusVariants Skipped = Variant_default"

text \<open>
  \<open>StatusBadge\<close> returns a \<open>Badge\<close> element: the properties it passes are the
  result here, and \<open>render_StatusBadge\<close> is that element rendered.
\<close>

definition StatusBadge :: "ExecutionStatus \<Rightarrow> string option \<Rightarrow> BadgeProps" where
  "StatusBadge st cls =
     \<lparr>variant = Some (statusVariants st),
      className = cls,
      children =
        toUpperCase (charAt (ExecutionStatus_string st) 0) @ slice (ExecutionStatus_string st) 1\<rparr>"

definition render_StatusBadge ::
  "(string option list \<Rightarrow> string) \<Rightarrow> ExecutionStatus \<Rightarrow> string option \<Rightarrow> html" where
  "render_StatusBadge cn st cls = Badge cn (StatusBadge st cls)"

section \<open>The new-test page: saving a generated test\<close>

datatype page_mode = Natural | Manual

record NewTestPage =
  mode :: page_mode
  naturalLanguage :: string
  generatedTest :: "TestCaseCreate option"
  testName :: string

text \<open>\<open>a || b\<close> on strings: the empty string is the only falsy string.\<close>

definition or_string :: "string \<Rightarrow> string \<Rightarrow> string" where
  "or_string a b = (if a \<noteq> [] then a else b)"

text \<open>
  \<open>handleSave\<close> calls \<open>saveMutation.mutate\<close> at most once; the result is the
  argument of that call, which the mutation function hands to \<open>api.createTest\<close>
  unchanged, or \<open>None\<close> when nothing is sent. The object spread copies every
  property of the generated test, and \<open>name\<close> is then overwritten.
\<close>

definition handleSave :: "NewTestPage \<Rightarrow> TestCaseCreate option" where
  "handleSave st =
     (case generatedTest st of
        None \<Rightarrow> None
      | Some g \<Rightarrow>
          Some (g\<lparr>TestCaseCreate.name := or_string (testName st) (TestCaseCreate.name g)\<rparr>))"

section \<open>Execution result aggregation\<close>

text \<open>
  Modelled from the spec: the aggregation of step results into a test execution and
  the derivation of its terminal status. The sources declare the result types and
  display them; the code that folds step results and derives the status is not among
  them. The transition rule is the one of the aggregation section of the
  specification: \<open>error\<close> if a harness-level fault occurred, else \<open>failed\<close> if any
  step result has status \<open>failed\<close>, else \<open>skipped\<close> if every step result has
  status \<open>skipped\<close>, else \<open>passed\<close>.
\<close>

definition derive_status :: "bool \<Rightarrow> StepResult list \<Rightarrow> ExecutionStatus" where
  "derive_status harness_fault results =
     (if harness_fault then Error
      else if list_ex (\<lambda>r. StepResult.status r = Failed) results then Failed
      else if list_all (\<lambda>r. StepResult.status r = Skipped) results then Skipped
      else Passed)"

text \<open>
  The same rule on a multiset of statuses, in the words of the testable property:
  a function of the multiset of step statuses and the harness-fault flag.
\<close>

definition status_of_multiset :: "bool \<Rightarrow> ExecutionStatus multiset \<Rightarrow> ExecutionStatus" where
  "status_of_multiset harness_fault M =
     (if harness_fault then Error
      else if Failed \<in># M then Failed
      else if set_mset M \<subseteq> {Skipped} then Skipped
      else Passed)"

definition statuses :: "StepResult list \<Rightarrow> ExecutionStatus multiset" where
  "statuses results = image_mset StepResult.status (mset results)"

text \<open>
  Modelled from the spec: the outcome of one executed step (the execution engine that
  runs the steps is missing from the sources). A step goes from pending to running to
  exactly one of passed, failed, skipped and error, never reverting; a step-level
  failure or error is captured with its human-readable message.
\<close>

datatype StepOutcome = StepPassed | StepFailed string | StepSkipped | StepErrored string

fun outcome_status :: "StepOutcome \<Rightarrow> ExecutionStatus" where
  "outcome_status StepPassed = Passed"
| "outcome_status (StepFailed msg) = Failed"
| "outcome_status StepSkipped = Skipped"
| "outcome_status (StepErrored msg) = Error"

fun outcome_message :: "StepOutcome \<Rightarrow> string option" where
  "outcome_message StepPassed = None"
| "outcome_message (StepFailed msg) = Some msg"
| "outcome_message StepSkipped = None"
| "outcome_message (StepErrored msg) = Some msg"

record ExecutedStep =
  executed_step :: TestStep
  outcome :: StepOutcome
  elapsed_ms :: nat
  screenshot_taken :: bool

text \<open>
  Modelled from the spec: the immutable record of one executed step (its producer is
  missing from the sources). The step number and the description are copied from the
  step, the status and the error message are those of the outcome, the action type is
  the action performed, the duration is not negative, and the element name is copied
  from the locator, if any.
\<close>

definition step_result_of :: "ExecutedStep \<Rightarrow> StepResult" where
  "step_result_of x =
     \<lparr>step_number = TestStep.step_number (executed_step x),
      description = TestStep.description (executed_step x),
      status = outcome_status (outcome x),
      action_type = TestStepType_string (action (executed_step x)),
      duration_ms = int (elapsed_ms x),
      error_message = outcome_message (outcome x),
      element_name = map_option ElementLocator.name (element (executed_step x)),
      has_screenshot = screenshot_taken x\<rparr>"

text \<open>
  Modelled from the spec: the fold itself. An execution is created \<open>pending\<close> with
  no results; the result of each executed step, in execution order, is appended and
  counted and the execution is \<open>running\<close>; completion sets \<open>completed_at\<close>, the duration (a
  wall-clock span, so a parameter), the top-level error message of a harness fault,
  and the derived status. The counters are counts over the executed steps.
\<close>

definition new_execution :: "string \<Rightarrow> string \<Rightarrow> string \<Rightarrow> TestExecution" where
  "new_execution eid tname started =
     \<lparr>execution_id = eid, test_name = tname, status = Pending, started_at = started,
      completed_at = None, duration_ms = 0, passed_steps = 0, failed_steps = 0,
      total_steps = 0, step_results = [], error_message = None, page_url = None\<rparr>"

text \<open>
  Modelled from the spec: one step of the fold, missing from the sources. The result of
  the executed step is appended in execution order; \<open>total_steps\<close> counts every
  executed step, \<open>passed_steps\<close> and \<open>failed_steps\<close> those with that status.
\<close>

definition record_step :: "TestExecution \<Rightarrow> ExecutedStep \<Rightarrow> TestExecution" where
  "record_step e x =
     (let r = step_result_of x
      in e\<lparr>TestExecution.status := Running,
           passed_steps := passed_steps e + (if StepResult.status r = Passed then 1 else 0),
           failed_steps := failed_steps e + (if StepResult.status r = Failed then 1 else 0),
           total_steps := total_steps e + 1,
           step_results := step_results e @ [r]\<rparr>)"

text \<open>
  Modelled from the spec: completion of an execution, missing from the sources. The
  harness fault, if any, is the top-level error message, and the terminal status is
  derived from it and from the step results.
\<close>

definition complete_execution ::
  "string option \<Rightarrow> string \<Rightarrow> int \<Rightarrow> TestExecution \<Rightarrow> TestExecution" where
  "complete_execution harness_fault completed span e =
     e\<lparr>TestExecution.status := derive_status (harness_fault \<noteq> None) (step_results e),
       completed_at := Some completed,
       TestExecution.duration_ms := span,
       TestExecution.error_message := harness_fault\<rparr>"

text \<open>
  Modelled from the spec: the whole aggregation, missing from the sources: the fold of
  the executed steps in order, then completion.
\<close>

definition aggregate ::
  "string \<Rightarrow> string \<Rightarrow> string \<Rightarrow> string option \<Rightarrow> string \<Rightarrow> int \<Rightarrow> ExecutedStep list
     \<Rightarrow> TestExecution" where
  "aggregate eid tname started harness_fault completed span executed =
     complete_execution harness_fault completed span
       (foldl record_step (new_execution eid tname started) executed)"

text \<open>The counts of the invariant, and the invariant as the data model words it.\<close>

definition count_status :: "ExecutionStatus \<Rightarrow> StepResult list \<Rightarrow> int" where
  "count_status s results = int (length (filter (\<lambda>r. StepResult.status r = s) results))"

definition counts_consistent :: "TestExecution \<Rightarrow> bool" where
  "counts_consistent e =
     (total_steps e = int (length (step_results e)) \<and>
      total_steps e =
        passed_steps e + failed_steps e
          + count_status Skipped (step_results e) + count_status Error (step_results e))"

definition terminal :: "ExecutionStatus \<Rightarrow> bool" where
  "terminal s = (s = Passed \<or> s = Failed \<or> s = Skipped \<or> s = Error)"

text \<open>The step-result rule of the data model: a message exactly on failure or error.\<close>

definition error_message_iff_failure :: "StepResult \<Rightarrow> bool" where
  "error_message_iff_failure r =
     ((StepResult.error_message r \<noteq> None) =
      (StepResult.status r = Failed \<or> StepResult.status r = Error))"

text \<open>
  Two values of the declared \<open>StepResult\<close> type, written down directly as inputs
  of the status derivation: a passed step that carries a message, and a failed step
  that carries none.
\<close>

definition passed_step_with_message :: StepResult where
  "passed_step_with_message =
     \<lparr>step_number = 1, description = ''Click the login button'', status = Passed,
      action_type = ''click'', duration_ms = 12, error_message = Some ''retried once'',
      element_name = Some ''login button'', has_screenshot = False\<rparr>"

definition failed_step_without_message :: StepResult where
  "failed_step_without_message =
     \<lparr>step_number = 2, description = ''Check the welcome text'', status = Failed,
      action_type = ''assert_text'', duration_ms = 30, error_message = None,
      element_name = None, has_screenshot = True\<rparr>"

section \<open>Test case assembly and validation\<close>

text \<open>
  Modelled from the spec: validation and normalisation of a \<open>TestCaseCreate\<close> into a
  persisted \<open>TestCase\<close>. The sources only send the object to the create-test
  endpoint; the validation behind it is not among them. Following the assembly
  section of the specification: a test case whose body \<open>steps\<close> is empty is
  rejected; a step whose action requires an element (any action but navigate, wait and
  assert_text) and has none is rejected with a step validation error naming the step
  number and the missing field; on acceptance the steps of each phase are renumbered
  densely from 1, the tags are deduplicated, and the identifier and the two equal
  timestamps are assigned. Both rejections are validation errors. An absent setup or
  teardown phase is the empty sequence.
\<close>

datatype ValidationError = EmptySteps | StepValidationError int string

text \<open>
  Modelled from the spec: which actions require an element (validation is missing from
  the sources): any action that is not navigate, wait or assert_text.
\<close>

definition requires_element :: "TestStepType \<Rightarrow> bool" where
  "requires_element a = (a \<noteq> Navigate \<and> a \<noteq> Wait \<and> a \<noteq> AssertText)"

definition missing_element :: "TestStep \<Rightarrow> bool" where
  "missing_element s = (requires_element (action s) \<and> element s = None)"

definition phase_steps :: "TestStep list option \<Rightarrow> TestStep list" where
  "phase_steps p = (case p of None \<Rightarrow> [] | Some ss \<Rightarrow> ss)"

text \<open>
  Modelled from the spec: deterministic renumbering of one phase on save, dense and
  increasing from 1 (validation is missing from the sources).
\<close>

definition renumber :: "TestStep list \<Rightarrow> TestStep list" where
  "renumber ss = map (\<lambda>(i, s). s\<lparr>TestStep.step_number := int i\<rparr>) (enumerate 1 ss)"

text \<open>
  Modelled from the spec: the validation itself, missing from the sources. The empty
  body is checked first, then the steps of setup, body and teardown for a missing
  element.
\<close>

definition validate_test_case ::
  "string \<Rightarrow> string \<Rightarrow> TestCaseCreate \<Rightarrow> ValidationError + TestCase" where
  "validate_test_case new_id now c =
     (if TestCaseCreate.steps c = [] then Inl EmptySteps
      else
        (case find missing_element
                (phase_steps (TestCaseCreate.setup_steps c) @ TestCaseCreate.steps c
                   @ phase_steps (TestCaseCreate.teardown_steps c)) of
           Some s \<Rightarrow> Inl (StepValidationError (TestStep.step_number s) ''element'')
         | None \<Rightarrow>
             Inr \<lparr>id_field = new_id,
                  name = TestCaseCreate.name c,
                  description = TestCaseCreate.description c,
                  tags = remdups (TestCaseCreate.tags c),
                  steps = renumber (TestCaseCreate.steps c),
                  setup_steps = renumber (phase_steps (TestCaseCreate.setup_steps c)),
                  teardown_steps = renumber (phase_steps (TestCaseCreate.teardown_steps c)),
                  created_at = now,
                  updated_at = now,
                  last_run_status = None,
                  last_run_at = None\<rparr>))"

text \<open>
  Modelled from the spec: persistence behind the create-test endpoint, missing from the
  sources, with the store passed explicitly: a rejected test case leaves the store as it
  was, an accepted one is appended whole.
\<close>

definition create_test ::
  "TestCase list \<Rightarrow> string \<Rightarrow> string \<Rightarrow> TestCaseCreate
     \<Rightarrow> (ValidationError + TestCase) \<times> TestCase list" where
  "create_test store new_id now c =
     (case validate_test_case new_id now c of
        Inl e \<Rightarrow> (Inl e, store)
      | Inr t \<Rightarrow> (Inr t, store @ [t]))"

definition navigate_step :: TestStep where
  "navigate_step =
     \<lparr>TestStep.step_number = 1, action = Navigate,
      TestStep.description = ''Open the login page'',
      element = None, value_field = Some ''https://example.com/login'',
      timeout = None, metadata = None\<rparr>"

definition empty_test :: TestCaseCreate where
  "empty_test =
     \<lparr>name = ''Login'', description = ''Log in'', tags = [''smoke''], steps = [],
      setup_steps = None, teardown_steps = None\<rparr>"

definition login_test :: TestCaseCreate where
  "login_test =
     \<lparr>name = ''Login'', description = ''Log in'', tags = [''smoke''], steps = [navigate_step],
      setup_steps = None, teardown_steps = None\<rparr>"

section \<open>Locator resolution\<close>

text \<open>
  Modelled from the spec: the resolver of an \<open>ElementLocator\<close>. The sources declare
  the locator; the engine that resolves it against a page is not among them. Following
  the resolution contract of the specification: the hints that are present give the
  candidate strategies, in the fixed precedence test identifier, label/role pair, HTML
  id, structural selector, visible text, path expression, placeholder; the first
  strategy with exactly one live, visible, interactable match is selected; a strategy
  with no match or several is skipped as inconclusive; if none is conclusive the
  resolution fails with an error carrying the locator's name and the attempted
  strategies with their match counts. How a strategy is matched against a document is
  outside the specification, so a page is what it answers to each strategy. The page is
  passed in and handed back, so that a second resolution runs on the page the first one
  left.
\<close>

datatype strategy =
    ByTestId string
  | ByLabelRole "string option" "string option"
  | ByHtmlId string
  | BySelector string
  | ByText string
  | ByPath string
  | ByPlaceholder string

type_synonym 'el page = "strategy \<Rightarrow> 'el list"

datatype LocatorResolutionError = LocatorResolutionError string "(strategy \<times> nat) list"

definition hint :: "(string \<Rightarrow> strategy) \<Rightarrow> string option \<Rightarrow> strategy list" where
  "hint mk h = (case h of None \<Rightarrow> [] | Some v \<Rightarrow> [mk v])"

text \<open>
  Modelled from the spec: the candidate strategies of a locator in precedence order
  (the resolver is missing from the sources). A hint that is absent gives no
  candidate; the label/role pair is a candidate when either of the two is present.
\<close>

definition candidate_strategies :: "ElementLocator \<Rightarrow> strategy list" where
  "candidate_strategies l =
     hint ByTestId (data_testid l)
     @ (if aria_label l = None \<and> role l = None then []
        else [ByLabelRole (aria_label l) (role l)])
     @ hint ByHtmlId (ElementLocator.id_field l)
     @ hint BySelector (css l)
     @ hint ByText (text_field l)
     @ hint ByPath (xpath l)
     @ hint ByPlaceholder (placeholder l)"

text \<open>
  Modelled from the spec: the resolver's loop over the candidates, missing from the
  sources. A strategy with exactly one match is selected; any other is recorded with
  its match count and skipped.
\<close>

fun try_strategies ::
  "'el page \<Rightarrow> strategy list \<Rightarrow> (strategy \<times> nat) list \<Rightarrow> (strategy \<times> nat) list + 'el" where
  "try_strategies p [] attempted = Inl attempted"
| "try_strategies p (s # ss) attempted =
     (case p s of
        [e] \<Rightarrow> Inr e
      | ms \<Rightarrow> try_strategies p ss (attempted @ [(s, length ms)]))"

text \<open>
  Modelled from the spec: resolution of a locator against a page, missing from the
  sources. It is a pure lookup: the page is handed back as it was given.
\<close>

definition resolve ::
  "'el page \<Rightarrow> ElementLocator \<Rightarrow> (LocatorResolutionError + 'el) \<times> 'el page" where
  "resolve p l =
     ((case try_strategies p (candidate_strategies l) [] of
         Inl attempted \<Rightarrow> Inl (LocatorResolutionError (ElementLocator.name l) attempted)
       | Inr e \<Rightarrow> Inr e),
      p)"

definition resolve_twice ::
  "'el page \<Rightarrow> ElementLocator
     \<Rightarrow> (LocatorResolutionError + 'el) \<times> (LocatorResolutionError + 'el) \<times> 'el page" where
  "resolve_twice p l =
     (case resolve p l of (r1, p1) \<Rightarrow> (case resolve p1 l of (r2, p2) \<Rightarrow> (r1, r2, p2)))"

text \<open>
  A page on which two elements carry the test identifier \<open>login-btn\<close> and one
  element (number 7) the HTML id \<open>login\<close>, a page without any element, and a
  locator with both hints.
\<close>

definition login_page :: "nat page" where
  "login_page s =
     (if s = ByTestId ''login-btn'' then [3, 4]
      else if s = ByHtmlId ''login'' then [7]
      else [])"

definition blank_page :: "nat page" where
  "blank_page s = []"

definition login_button :: ElementLocator where
  "login_button =
     \<lparr>ElementLocator.name = ''login button'', ElementLocator.description = None,
      data_testid = Some ''login-btn'', ElementLocator.id_field = Some ''login'', aria_label = None, role = None, css = None,
      text_field = None, xpath = None, placeholder = None\<rparr>"

text \<open>
  Executed steps of a run: a step that passed, and a step that failed on a timeout.
\<close>

definition passed_navigate :: ExecutedStep where
  "passed_navigate =
     \<lparr>executed_step = navigate_step, outcome = StepPassed, elapsed_ms = 120,
      screenshot_taken = False\<rparr>"

definition failed_navigate :: ExecutedStep where
  "failed_navigate =
     \<lparr>executed_step = navigate_step, outcome = StepFailed ''Timeout 30000ms exceeded'',
      elapsed_ms = 30000, screenshot_taken = True\<rparr>"

section \<open>Properties of the declared types\<close>

lemma ExecutionStatus_UNIV: "set ExecutionStatus_values = (UNIV :: ExecutionStatus set)"
proof -
  have "x \<in> set ExecutionStatus_values" for x
    by (cases x) (simp_all add: ExecutionStatus_values_def)
  then show ?thesis by blast
qed

text \<open>
  C5. \<open>ExecutionStatus\<close> has exactly the six values pending, running, passed,
  failed, skipped and error, and it is the type of the \<open>status\<close> property both of a
  \<open>StepResult\<close> and of a \<open>TestExecution\<close>.
\<close>

theorem ExecutionStatus_six_values:
  "set ExecutionStatus_values = UNIV
   \<and> distinct ExecutionStatus_values
   \<and> length ExecutionStatus_values = 6
   \<and> map ExecutionStatus_string ExecutionStatus_values
       = [''pending'', ''running'', ''passed'', ''failed'', ''skipped'', ''error'']
   \<and> type_of_field StepResult_fields ''status'' = Some (TNamed ''ExecutionStatus'')
   \<and> type_of_field TestExecution_fields ''status'' = Some (TNamed ''ExecutionStatus'')
   \<and> StepResult.status r \<in> set ExecutionStatus_values
   \<and> TestExecution.status e \<in> set ExecutionStatus_values"
proof -
  have "distinct ExecutionStatus_values" "length ExecutionStatus_values = 6"
       "map ExecutionStatus_string ExecutionStatus_values
       = [''pending'', ''running'', ''passed'', ''failed'', ''skipped'', ''error'']"
    by (simp_all add: ExecutionStatus_values_def)
  moreover have "type_of_field StepResult_fields ''status'' = Some (TNamed ''ExecutionStatus'')"
    by (simp add: type_of_field_def StepResult_fields_def fld_def)
  moreover have "type_of_field TestExecution_fields ''status'' = Some (TNamed ''ExecutionStatus'')"
    by (simp add: type_of_field_def TestExecution_fields_def fld_def)
  ultimately show ?thesis
    using ExecutionStatus_UNIV by simp
qed

lemma TestStepType_UNIV: "set TestStepType_values = (UNIV :: TestStepType set)"
proof -
  have "x \<in> set TestStepType_values" for x
    by (cases x) (simp_all add: TestStepType_values_def)
  then show ?thesis by blast
qed

text \<open>
  C6. The action of a \<open>TestStep\<close> is one of exactly fifteen step kinds: navigate,
  click, fill, type, select, check, uncheck, hover, wait, assert_text, assert_visible,
  assert_hidden, assert_value, press_key and screenshot; the type has no other value.
\<close>

theorem TestStepType_fifteen_values:
  "set TestStepType_values = UNIV
   \<and> distinct TestStepType_values
   \<and> length TestStepType_values = 15
   \<and> map TestStepType_string TestStepType_values
       = [''navigate'', ''click'', ''fill'', ''type'', ''select'', ''check'', ''uncheck'',
          ''hover'', ''wait'', ''assert_text'', ''assert_visible'', ''assert_hidden'',
          ''assert_value'', ''press_key'', ''screenshot'']
   \<and> type_of_field TestStep_fields ''action'' = Some (TNamed ''TestStepType'')
   \<and> action s \<in> set TestStepType_values"
proof -
  have "distinct TestStepType_values" "length TestStepType_values = 15"
       "map TestStepType_string TestStepType_values
       = [''navigate'', ''click'', ''fill'', ''type'', ''select'', ''check'', ''uncheck'',
          ''hover'', ''wait'', ''assert_text'', ''assert_visible'', ''assert_hidden'',
          ''assert_value'', ''press_key'', ''screenshot'']"
    by (simp_all add: TestStepType_values_def)
  moreover have "type_of_field TestStep_fields ''action'' = Some (TNamed ''TestStepType'')"
    by (simp add: type_of_field_def TestStep_fields_def fld_def)
  ultimately show ?thesis
    using TestStepType_UNIV by simp
qed

lemma optional_stripped_TestCase:
  "map optional (strip_identity_audit TestCase_fields)
     = [False, False, False, False, False, False]"
  by (simp add: strip_identity_audit_def TestCase_fields_def fld_def identity_audit_fields_def)

lemma optional_TestCaseCreate:
  "map optional TestCaseCreate_fields = [False, False, False, False, True, True]"
  by (simp add: TestCaseCreate_fields_def fld_def)

text \<open>
  C4, as the declarations have it. \<open>TestCaseCreate\<close> is not \<open>TestCase\<close> with the
  identity and audit properties removed when the question marks are compared: the
  optional \<open>setup_steps\<close> of \<open>TestCaseCreate\<close> is no property of the stripped
  \<open>TestCase\<close>, where it is required.
\<close>

theorem TestCaseCreate_not_stripped_TestCase:
  "set TestCaseCreate_fields \<noteq> set (strip_identity_audit TestCase_fields)"
proof
  assume eq: "set TestCaseCreate_fields = set (strip_identity_audit TestCase_fields)"
  have "True \<in> set (map optional TestCaseCreate_fields)"
    by (simp add: optional_TestCaseCreate)
  then have "True \<in> optional ` set TestCaseCreate_fields"
    by simp
  then have "True \<in> optional ` set (strip_identity_audit TestCase_fields)"
    by (simp only: eq)
  then have "True \<in> set (map optional (strip_identity_audit TestCase_fields))"
    by simp
  then show False
    by (simp add: optional_stripped_TestCase)
qed

text \<open>
  C4, amended. \<open>TestCaseCreate\<close> declares exactly the properties of \<open>TestCase\<close>
  other than id, created_at, updated_at, last_run_status and last_run_at, in the same
  order and each with the same type; name, description, tags and steps are required
  in both, while setup_steps and teardown_steps are required in \<open>TestCase\<close> and
  optional in \<open>TestCaseCreate\<close>.
\<close>

theorem TestCaseCreate_fields_of_TestCase:
  "map field_name TestCaseCreate_fields = map field_name (strip_identity_audit TestCase_fields)
   \<and> map field_type TestCaseCreate_fields = map field_type (strip_identity_audit TestCase_fields)
   \<and> map field_name TestCaseCreate_fields
       = [''name'', ''description'', ''tags'', ''steps'', ''setup_steps'', ''teardown_steps'']
   \<and> map optional (strip_identity_audit TestCase_fields)
       = [False, False, False, False, False, False]
   \<and> map optional TestCaseCreate_fields = [False, False, False, False, True, True]"
  by (simp add: strip_identity_audit_def TestCase_fields_def TestCaseCreate_fields_def fld_def
      identity_audit_fields_def)

section \<open>Properties of the status badge\<close>

lemma label_eq:
  "toUpperCase (charAt (ExecutionStatus_string st) 0) @ slice (ExecutionStatus_string st) 1
   = toUpperCase_char (hd (ExecutionStatus_string st)) # tl (ExecutionStatus_string st)"
  by (cases st) (simp_all add: toUpperCase_def charAt_def slice_def)

text \<open>
  C9. \<open>StatusBadge\<close> yields a badge for each of the six statuses: passed has the
  success variant, failed and error the error variant, running info, pending warning
  and skipped the default variant; the label is the status literal with its first
  character in upper case; and the badge renders as a span with the style of that
  variant around that label.
\<close>

theorem StatusBadge_total:
  "StatusBadge Passed cls = \<lparr>variant = Some Variant_success, className = cls, children = ''Passed''\<rparr>
   \<and> StatusBadge Failed cls = \<lparr>variant = Some Variant_error, className = cls, children = ''Failed''\<rparr>
   \<and> StatusBadge Error cls = \<lparr>variant = Some Variant_error, className = cls, children = ''Error''\<rparr>
   \<and> StatusBadge Running cls = \<lparr>variant = Some Variant_info, className = cls, children = ''Running''\<rparr>
   \<and> StatusBadge Pending cls = \<lparr>variant = Some Variant_warning, className = cls, children = ''Pending''\<rparr>
   \<and> StatusBadge Skipped cls = \<lparr>variant = Some Variant_default, className = cls, children = ''Skipped''\<rparr>
   \<and> children (StatusBadge st cls)
       = toUpperCase_char (hd (ExecutionStatus_string st)) # tl (ExecutionStatus_string st)
   \<and> render_StatusBadge cn st cls
       = Span (cn [Some ''inline-flex items-center px-2 py-0.5 text-xs font-medium rounded-full border'',
                   Some (variantStyles (statusVariants st)), cls])
              (children (StatusBadge st cls))"
proof -
  have six:
    "StatusBadge Passed cls = \<lparr>variant = Some Variant_success, className = cls, children = ''Passed''\<rparr>"
    "StatusBadge Failed cls = \<lparr>variant = Some Variant_error, className = cls, children = ''Failed''\<rparr>"
    "StatusBadge Error cls = \<lparr>variant = Some Variant_error, className = cls, children = ''Error''\<rparr>"
    "StatusBadge Running cls = \<lparr>variant = Some Variant_info, className = cls, children = ''Running''\<rparr>"
    "StatusBadge Pending cls = \<lparr>variant = Some Variant_warning, className = cls, children = ''Pending''\<rparr>"
    "StatusBadge Skipped cls = \<lparr>variant = Some Variant_default, className = cls, children = ''Skipped''\<rparr>"
    by (simp_all add: StatusBadge_def toUpperCase_def charAt_def slice_def toUpperCase_char_def)
  have label: "children (StatusBadge st cls)
       = toUpperCase_char (hd (ExecutionStatus_string st)) # tl (ExecutionStatus_string st)"
    using label_eq [of st] by (simp add: StatusBadge_def)
  have rendered: "render_StatusBadge cn st cls
       = Span (cn [Some ''inline-flex items-center px-2 py-0.5 text-xs font-medium rounded-full border'',
                   Some (variantStyles (statusVariants st)), cls])
              (children (StatusBadge st cls))"
    by (simp add: render_StatusBadge_def Badge_def StatusBadge_def)
  from six label rendered show ?thesis by blast
qed

section \<open>Properties of saving a generated test\<close>

text \<open>
  C10. When no test has been generated, \<open>handleSave\<close> sends nothing. Otherwise it
  sends one object, equal to the generated test in description, tags, steps,
  setup_steps and teardown_steps, whose name is the entered test name when that is not
  the empty string and the generated test's name when it is.
\<close>

theorem handleSave_sends_generated_test:
  "(generatedTest st = None \<longrightarrow> handleSave st = None)
   \<and> (generatedTest st = Some g \<longrightarrow>
        (\<exists>sent. handleSave st = Some sent
           \<and> TestCaseCreate.name sent
               = (if testName st \<noteq> [] then testName st else TestCaseCreate.name g)
           \<and> TestCaseCreate.description sent = TestCaseCreate.description g
           \<and> TestCaseCreate.tags sent = TestCaseCreate.tags g
           \<and> TestCaseCreate.steps sent = TestCaseCreate.steps g
           \<and> TestCaseCreate.setup_steps sent = TestCaseCreate.setup_steps g
           \<and> TestCaseCreate.teardown_steps sent = TestCaseCreate.teardown_steps g))"
  by (simp add: handleSave_def or_string_def)

theorem handleSave_sends_generated_test_witness:
  "handleSave \<lparr>mode = Natural, naturalLanguage = ''log in'', generatedTest = None,
               testName = ''My login''\<rparr> = None
   \<and> handleSave \<lparr>mode = Natural, naturalLanguage = ''log in'',
                 generatedTest = Some login_test, testName = ''My login''\<rparr>
       = Some (login_test\<lparr>TestCaseCreate.name := ''My login''\<rparr>)
   \<and> handleSave \<lparr>mode = Natural, naturalLanguage = ''log in'',
                 generatedTest = Some login_test, testName = []\<rparr>
       = Some login_test"
  using handleSave_sends_generated_test
          [of "\<lparr>mode = Natural, naturalLanguage = ''log in'', generatedTest = None,
               testName = ''My login''\<rparr>" login_test]
        handleSave_sends_generated_test
          [of "\<lparr>mode = Natural, naturalLanguage = ''log in'',
                generatedTest = Some login_test, testName = ''My login''\<rparr>" login_test]
        handleSave_sends_generated_test
          [of "\<lparr>mode = Natural, naturalLanguage = ''log in'',
                generatedTest = Some login_test, testName = []\<rparr>" login_test]
  by (auto simp add: login_test_def)

section \<open>Properties of step results and of the aggregation\<close>

lemma status_step_result_of:
  "StepResult.status (step_result_of x) = outcome_status (outcome x)"
  by (simp add: step_result_of_def)

lemma error_message_step_result_of:
  "StepResult.error_message (step_result_of x) = outcome_message (outcome x)"
  by (simp add: step_result_of_def)

lemma step_result_of_iff: "error_message_iff_failure (step_result_of x)"
  by (cases "outcome x")
     (simp_all add: error_message_iff_failure_def status_step_result_of
        error_message_step_result_of)

lemma step_result_of_terminal: "terminal (StepResult.status (step_result_of x))"
  by (cases "outcome x") (simp_all add: terminal_def status_step_result_of)

lemma foldl_record_step_results:
  "step_results (foldl record_step e xs) = step_results e @ map step_result_of xs"
  by (induction xs arbitrary: e) (simp_all add: record_step_def Let_def)

lemma foldl_record_step_total:
  "total_steps (foldl record_step e xs) = total_steps e + int (length xs)"
  by (induction xs arbitrary: e) (simp_all add: record_step_def Let_def)

lemma foldl_record_step_passed:
  "passed_steps (foldl record_step e xs)
     = passed_steps e + count_status Passed (map step_result_of xs)"
  by (induction xs arbitrary: e) (simp_all add: record_step_def Let_def count_status_def)

lemma foldl_record_step_failed:
  "failed_steps (foldl record_step e xs)
     = failed_steps e + count_status Failed (map step_result_of xs)"
  by (induction xs arbitrary: e) (simp_all add: record_step_def Let_def count_status_def)

lemma terminal_partition:
  "list_all (\<lambda>r. terminal (StepResult.status r)) rs \<Longrightarrow>
   int (length rs) = count_status Passed rs + count_status Failed rs
                      + count_status Skipped rs + count_status Error rs"
  by (induction rs) (auto simp add: count_status_def terminal_def)

lemma executed_partition:
  "int (length xs)
     = count_status Passed (map step_result_of xs) + count_status Failed (map step_result_of xs)
       + count_status Skipped (map step_result_of xs) + count_status Error (map step_result_of xs)"
  using terminal_partition [of "map step_result_of xs"]
  by (simp add: list_all_iff step_result_of_terminal)

lemma aggregate_fields:
  "step_results (aggregate eid tname started fault completed span xs) = map step_result_of xs"
  "total_steps (aggregate eid tname started fault completed span xs) = int (length xs)"
  "passed_steps (aggregate eid tname started fault completed span xs)
     = count_status Passed (map step_result_of xs)"
  "failed_steps (aggregate eid tname started fault completed span xs)
     = count_status Failed (map step_result_of xs)"
  "completed_at (aggregate eid tname started fault completed span xs) = Some completed"
  "TestExecution.status (aggregate eid tname started fault completed span xs)
     = derive_status (fault \<noteq> None) (map step_result_of xs)"
  by (simp_all add: aggregate_def complete_execution_def foldl_record_step_results
      foldl_record_step_total foldl_record_step_passed foldl_record_step_failed
      new_execution_def)

text \<open>
  C3. In every step result that is produced for an executed step, and so in every step
  result of an aggregated execution, the error message is present exactly when the
  status is failed or error.
\<close>

theorem step_result_message_iff_failure:
  "((StepResult.error_message (step_result_of x) \<noteq> None)
      = (StepResult.status (step_result_of x) = Failed
         \<or> StepResult.status (step_result_of x) = Error))
   \<and> error_message_iff_failure (step_result_of x)
   \<and> list_all error_message_iff_failure
        (step_results (aggregate eid tname started fault completed span xs))"
proof -
  have a: "error_message_iff_failure (step_result_of y)" for y
    by (rule step_result_of_iff)
  have "list_all error_message_iff_failure (map step_result_of xs)"
    by (simp add: list_all_iff a)
  then have "list_all error_message_iff_failure
        (step_results (aggregate eid tname started fault completed span xs))"
    by (simp only: aggregate_fields)
  with a [of x] show ?thesis
    by (simp add: error_message_iff_failure_def)
qed

theorem step_result_message_iff_failure_witness:
  "StepResult.status (step_result_of failed_navigate) = Failed
   \<and> StepResult.error_message (step_result_of failed_navigate) = Some ''Timeout 30000ms exceeded''
   \<and> StepResult.status (step_result_of passed_navigate) = Passed
   \<and> StepResult.error_message (step_result_of passed_navigate) = None
   \<and> error_message_iff_failure (step_result_of failed_navigate)
   \<and> error_message_iff_failure (step_result_of passed_navigate)"
  using step_result_message_iff_failure [of failed_navigate]
        step_result_message_iff_failure [of passed_navigate]
  by (simp add: status_step_result_of error_message_step_result_of
      failed_navigate_def passed_navigate_def)

lemma ex_failed_statuses:
  "list_ex (\<lambda>r. StepResult.status r = Failed) rs = (Failed \<in># statuses rs)"
  by (induction rs) (auto simp add: statuses_def)

lemma all_skipped_statuses:
  "list_all (\<lambda>r. StepResult.status r = Skipped) rs = (set_mset (statuses rs) \<subseteq> {Skipped})"
  by (induction rs) (auto simp add: statuses_def)

lemma derive_status_multiset:
  "derive_status fault rs = status_of_multiset fault (statuses rs)"
  by (simp only: derive_status_def status_of_multiset_def ex_failed_statuses all_skipped_statuses)

text \<open>
  C1. The derived status is a function of the harness-fault flag and the multiset of
  step statuses: it is \<open>error\<close> on a harness fault, else \<open>failed\<close> if some step
  status is \<open>failed\<close>, else \<open>skipped\<close> if every step status is \<open>skipped\<close>, else
  \<open>passed\<close>; two sequences of step results with the same multiset of statuses, and
  so any two permutations of one sequence, derive the same status.
\<close>

theorem derive_status_order_independent:
  "derive_status fault rs = status_of_multiset fault (statuses rs)
   \<and> derive_status fault rs =
       (if fault then Error
        else if Failed \<in> StepResult.status ` set rs then Failed
        else if StepResult.status ` set rs \<subseteq> {Skipped} then Skipped
        else Passed)
   \<and> (statuses rs' = statuses rs \<longrightarrow> derive_status fault rs' = derive_status fault rs)
   \<and> (mset rs' = mset rs \<longrightarrow> derive_status fault rs' = derive_status fault rs)"
proof -
  have a: "derive_status fault zs = status_of_multiset fault (statuses zs)" for zs
    by (rule derive_status_multiset)
  have b: "derive_status fault rs =
       (if fault then Error
        else if Failed \<in> StepResult.status ` set rs then Failed
        else if StepResult.status ` set rs \<subseteq> {Skipped} then Skipped
        else Passed)"
    by (simp add: a status_of_multiset_def statuses_def)
  have c: "statuses rs' = statuses rs \<longrightarrow> derive_status fault rs' = derive_status fault rs"
    by (simp add: a)
  have d: "mset rs' = mset rs \<longrightarrow> derive_status fault rs' = derive_status fault rs"
    by (simp add: a statuses_def)
  from a b c d show ?thesis by blast
qed

theorem derive_status_order_independent_witness:
  "derive_status False [failed_step_without_message, passed_step_with_message] = Failed
   \<and> derive_status False [passed_step_with_message, failed_step_without_message] = Failed
   \<and> derive_status True [passed_step_with_message] = Error
   \<and> derive_status False [passed_step_with_message] = Passed"
proof -
  have m: "mset [failed_step_without_message, passed_step_with_message]
         = mset [passed_step_with_message, failed_step_without_message]"
    by (simp add: add.commute)
  have "derive_status False [passed_step_with_message, failed_step_without_message] = Failed"
    by (simp add: derive_status_def passed_step_with_message_def failed_step_without_message_def)
  moreover have "derive_status False [failed_step_without_message, passed_step_with_message]
     = derive_status False [passed_step_with_message, failed_step_without_message]"
    using derive_status_order_independent
            [of False "[passed_step_with_message, failed_step_without_message]"
                "[failed_step_without_message, passed_step_with_message]"] m
    by blast
  moreover have "derive_status True [passed_step_with_message] = Error"
    "derive_status False [passed_step_with_message] = Passed"
    by (simp_all add: derive_status_def passed_step_with_message_def)
  ultimately show ?thesis by simp
qed

text \<open>
  C2. Every execution that the aggregation completes has \<open>completed_at\<close> set, lists
  the results of the executed steps, and has \<open>total_steps\<close> equal to the length of
  \<open>step_results\<close> and to the sum of \<open>passed_steps\<close>, \<open>failed_steps\<close> and the
  numbers of skipped and of error step results.
\<close>

theorem aggregate_counts_consistent:
  "completed_at (aggregate eid tname started fault completed span xs) = Some completed
   \<and> step_results (aggregate eid tname started fault completed span xs) = map step_result_of xs
   \<and> total_steps (aggregate eid tname started fault completed span xs)
       = int (length (step_results (aggregate eid tname started fault completed span xs)))
   \<and> total_steps (aggregate eid tname started fault completed span xs)
       = passed_steps (aggregate eid tname started fault completed span xs)
         + failed_steps (aggregate eid tname started fault completed span xs)
         + count_status Skipped (step_results (aggregate eid tname started fault completed span xs))
         + count_status Error (step_results (aggregate eid tname started fault completed span xs))
   \<and> counts_consistent (aggregate eid tname started fault completed span xs)"
  using executed_partition [of xs]
  by (simp add: counts_consistent_def aggregate_fields)

lemma count_status_run:
  "count_status Passed
     (map step_result_of [passed_navigate, failed_navigate, passed_navigate, passed_navigate]) = 3"
  "count_status Failed
     (map step_result_of [passed_navigate, failed_navigate, passed_navigate, passed_navigate]) = 1"
  by (simp_all add: count_status_def status_step_result_of passed_navigate_def
      failed_navigate_def)

lemma status_run:
  "derive_status False
     (map step_result_of [passed_navigate, failed_navigate, passed_navigate, passed_navigate])
   = Failed"
  by (simp add: derive_status_def status_step_result_of passed_navigate_def failed_navigate_def)

theorem aggregate_counts_consistent_witness:
  "counts_consistent
     (aggregate ''e1'' ''login'' ''t0'' None ''t1'' 5000
        [passed_navigate, failed_navigate, passed_navigate, passed_navigate])
   \<and> completed_at
     (aggregate ''e1'' ''login'' ''t0'' None ''t1'' 5000
        [passed_navigate, failed_navigate, passed_navigate, passed_navigate]) = Some ''t1''
   \<and> total_steps
     (aggregate ''e1'' ''login'' ''t0'' None ''t1'' 5000
        [passed_navigate, failed_navigate, passed_navigate, passed_navigate]) = 4
   \<and> passed_steps
     (aggregate ''e1'' ''login'' ''t0'' None ''t1'' 5000
        [passed_navigate, failed_navigate, passed_navigate, passed_navigate]) = 3
   \<and> failed_steps
     (aggregate ''e1'' ''login'' ''t0'' None ''t1'' 5000
        [passed_navigate, failed_navigate, passed_navigate, passed_navigate]) = 1
   \<and> TestExecution.status
     (aggregate ''e1'' ''login'' ''t0'' None ''t1'' 5000
        [passed_navigate, failed_navigate, passed_navigate, passed_navigate]) = Failed"
proof -
  have "total_steps
     (aggregate ''e1'' ''login'' ''t0'' None ''t1'' 5000
        [passed_navigate, failed_navigate, passed_navigate, passed_navigate]) = 4"
    by (simp add: aggregate_fields)
  moreover have "passed_steps
     (aggregate ''e1'' ''login'' ''t0'' None ''t1'' 5000
        [passed_navigate, failed_navigate, passed_navigate, passed_navigate]) = 3"
    by (simp only: aggregate_fields count_status_run)
  moreover have "failed_steps
     (aggregate ''e1'' ''login'' ''t0'' None ''t1'' 5000
        [passed_navigate, failed_navigate, passed_navigate, passed_navigate]) = 1"
    by (simp only: aggregate_fields count_status_run)
  moreover have "TestExecution.status
     (aggregate ''e1'' ''login'' ''t0'' None ''t1'' 5000
        [passed_navigate, failed_navigate, passed_navigate, passed_navigate]) = Failed"
    using status_run by (simp only: aggregate_fields) simp
  ultimately show ?thesis
    using aggregate_counts_consistent
      [of "''e1''" "''login''" "''t0''" None "''t1''" 5000
          "[passed_navigate, failed_navigate, passed_navigate, passed_navigate]"]
    by blast
qed

section \<open>Properties of validation\<close>

text \<open>
  C7. Creating a test case whose body \<open>steps\<close> is empty is rejected with the
  validation error for empty steps and leaves the store unchanged; a test case with at
  least one body step is never rejected with that error.
\<close>

theorem empty_steps_rejected:
  "(TestCaseCreate.steps c = [] \<longrightarrow>
      create_test store new_id now c = (Inl EmptySteps, store))
   \<and> (TestCaseCreate.steps c \<noteq> [] \<longrightarrow>
      fst (create_test store new_id now c) \<noteq> Inl EmptySteps
      \<and> validate_test_case new_id now c \<noteq> Inl EmptySteps)"
  by (simp add: create_test_def validate_test_case_def split: option.splits sum.splits)

theorem empty_steps_rejected_witness:
  "create_test [] ''t1'' ''2024-01-01T00:00:00Z'' empty_test = (Inl EmptySteps, [])
   \<and> fst (create_test [] ''t1'' ''2024-01-01T00:00:00Z'' login_test) \<noteq> Inl EmptySteps
   \<and> length (snd (create_test [] ''t1'' ''2024-01-01T00:00:00Z'' login_test)) = 1"
proof -
  have e: "TestCaseCreate.steps empty_test = []"
    by (simp add: empty_test_def)
  have n: "TestCaseCreate.steps login_test \<noteq> []"
    by (simp add: login_test_def)
  have "find missing_element
          (phase_steps (TestCaseCreate.setup_steps login_test) @ TestCaseCreate.steps login_test
             @ phase_steps (TestCaseCreate.teardown_steps login_test)) = None"
    by (simp add: login_test_def navigate_step_def phase_steps_def missing_element_def
        requires_element_def)
  then have "length (snd (create_test [] ''t1'' ''2024-01-01T00:00:00Z'' login_test)) = 1"
    using n by (simp add: create_test_def validate_test_case_def)
  then show ?thesis
    using empty_steps_rejected [of empty_test "[]" "''t1''" "''2024-01-01T00:00:00Z''"]
          empty_steps_rejected [of login_test "[]" "''t1''" "''2024-01-01T00:00:00Z''"] e n
    by blast
qed

section \<open>Properties of locator resolution\<close>

lemma try_strategies_match:
  "try_strategies p ss attempted = Inr e \<Longrightarrow> \<exists>s. List.member ss s \<and> p s = [e]"
proof (induction ss arbitrary: attempted)
  case Nil
  then show ?case by simp
next
  case (Cons s ss)
  show ?case
  proof (cases "\<exists>x. p s = [x]")
    case True
    then obtain x where x: "p s = [x]" by blast
    with Cons.prems have "x = e" by simp
    with x show ?thesis by auto
  next
    case False
    then have "try_strategies p (s # ss) attempted
                 = try_strategies p ss (attempted @ [(s, length (p s))])"
      by (auto split: list.splits)
    with Cons.prems Cons.IH obtain s' where "List.member ss s'" "p s' = [e]"
      by metis
    then show ?thesis by auto
  qed
qed

lemma try_strategies_fail:
  "try_strategies p ss attempted = Inl tried \<Longrightarrow>
   tried = attempted @ map (\<lambda>s. (s, length (p s))) ss \<and> list_all (\<lambda>s. length (p s) \<noteq> 1) ss"
proof (induction ss arbitrary: attempted)
  case Nil
  then show ?case by simp
next
  case (Cons s ss)
  show ?case
  proof (cases "\<exists>x. p s = [x]")
    case True
    with Cons.prems show ?thesis by auto
  next
    case False
    then have step: "try_strategies p (s # ss) attempted
                 = try_strategies p ss (attempted @ [(s, length (p s))])"
      by (auto split: list.splits)
    from False have "length (p s) \<noteq> 1"
      by (cases "p s") (auto simp add: length_Suc_conv)
    with Cons.prems Cons.IH [of "attempted @ [(s, length (p s))]"] step show ?thesis
      by simp
  qed
qed

text \<open>
  C8. Resolving a locator leaves the page as it was, and resolving it a second time on
  that page gives the result of the first time: the same match, which is the only
  match of one of the locator's candidate strategies, or the same failure, which
  carries the locator's name and the match count of every candidate strategy, none of
  them 1.
\<close>

theorem resolve_idempotent:
  "resolve_twice p l = (fst (resolve p l), fst (resolve p l), p)
   \<and> snd (resolve p l) = p
   \<and> fst (resolve (snd (resolve p l)) l) = fst (resolve p l)
   \<and> (fst (resolve p l) = Inr e \<longrightarrow>
        (\<exists>s. List.member (candidate_strategies l) s \<and> p s = [e]))
   \<and> (fst (resolve p l) = Inl err \<longrightarrow>
        err = LocatorResolutionError (ElementLocator.name l)
                (map (\<lambda>s. (s, length (p s))) (candidate_strategies l))
        \<and> list_all (\<lambda>s. length (p s) \<noteq> 1) (candidate_strategies l))"
proof -
  obtain r where r: "resolve p l = (r, p)"
    by (simp add: resolve_def)
  then have twice: "resolve_twice p l = (fst (resolve p l), fst (resolve p l), p)"
    "snd (resolve p l) = p" "fst (resolve (snd (resolve p l)) l) = fst (resolve p l)"
    by (simp_all add: resolve_twice_def)
  have match: "fst (resolve p l) = Inr e \<longrightarrow>
        (\<exists>s. List.member (candidate_strategies l) s \<and> p s = [e])"
    using try_strategies_match [of p "candidate_strategies l" "[]" e]
    by (auto simp add: resolve_def split: sum.splits)
  have fail: "fst (resolve p l) = Inl err \<longrightarrow>
        err = LocatorResolutionError (ElementLocator.name l)
                (map (\<lambda>s. (s, length (p s))) (candidate_strategies l))
        \<and> list_all (\<lambda>s. length (p s) \<noteq> 1) (candidate_strategies l)"
    using try_strategies_fail [of p "candidate_strategies l" "[]"]
    by (auto simp add: resolve_def split: sum.splits)
  from twice match fail show ?thesis by blast
qed

lemma candidates_login_button:
  "candidate_strategies login_button = [ByTestId ''login-btn'', ByHtmlId ''login'']"
  by (simp add: candidate_strategies_def login_button_def hint_def)

lemma resolve_login_page: "fst (resolve login_page login_button) = Inr 7"
  by (simp add: resolve_def candidates_login_button login_page_def)

lemma resolve_blank_page:
  "fst (resolve blank_page login_button)
     = Inl (LocatorResolutionError ''login button''
              [(ByTestId ''login-btn'', 0), (ByHtmlId ''login'', 0)])"
proof -
  have "try_strategies blank_page (candidate_strategies login_button) []
          = Inl [(ByTestId ''login-btn'', 0), (ByHtmlId ''login'', 0)]"
    by (simp add: candidates_login_button blank_page_def)
  moreover have "ElementLocator.name login_button = ''login button''"
    by (simp add: login_button_def)
  ultimately show ?thesis
    by (simp add: resolve_def)
qed

theorem resolve_idempotent_witness:
  "resolve_twice login_page login_button = (Inr 7, Inr 7, login_page)
   \<and> resolve_twice blank_page login_button
       = (Inl (LocatorResolutionError ''login button''
                 [(ByTestId ''login-btn'', 0), (ByHtmlId ''login'', 0)]),
          Inl (LocatorResolutionError ''login button''
                 [(ByTestId ''login-btn'', 0), (ByHtmlId ''login'', 0)]),
          blank_page)
   \<and> (\<exists>s. List.member (candidate_strategies login_button) s \<and> login_page s = [7])"
  using resolve_idempotent [of login_page login_button 7]
        resolve_idempotent [of blank_page login_button]
        resolve_login_page resolve_blank_page
  by simp

end
